theory Spec2Isabelle
  imports Main
begin

section \<open>The database/sql collaborator\<close>

text \<open>
  Package sx is a thin layer over Go's database/sql. The two handle types of that
  library, \<^verbatim>\<open>*sql.DB\<close> and \<^verbatim>\<open>*sql.Tx\<close>, are pointers; a pointer is
  represented by a number, so that two wrappers share one transaction exactly when they
  hold the same number.

  A Go \<^verbatim>\<open>error\<close> is an interface value: \<open>None\<close> is \<^verbatim>\<open>nil\<close>,
  \<open>Some msg\<close> is a non-nil error. A call returning \<^verbatim>\<open>(*sql.Tx, error)\<close> is a sum:
  \<open>Inl msg\<close> for a non-nil error, \<open>Inr t\<close> for the transaction with a nil error.
\<close>

type_synonym dbid = nat
type_synonym txid = nat
type_synonym error = "string option"

text \<open>
  A value of type \<^verbatim>\<open>interface{}\<close>, as \<^verbatim>\<open>recover()\<close> hands it to a deferred
  function. \<open>AnyNil\<close> is the nil interface: \<^verbatim>\<open>recover()\<close> yields it for
  \<^verbatim>\<open>panic(nil)\<close> on toolchains before Go 1.21 (and later ones run with
  \<^verbatim>\<open>GODEBUG=panicnil=1\<close>, the default for a package without a go directive).
\<close>

datatype anyval = AnyNil | AnyStr string | AnyObj nat

text \<open>The three methods of \<^verbatim>\<open>Executor\<close>, with the query text.\<close>

datatype stmt = Exec string | Query string | QueryRow string

text \<open>
  The world is the history of the calls that reached database/sql, oldest first. Nothing
  else of the database is visible to package sx.
\<close>

datatype event =
    DBBegin dbid
  | TxCommit txid
  | TxRollback txid
  | DBStmt dbid stmt
  | TxStmt txid stmt

type_synonym world = "event list"

text \<open>
  What database/sql (and the driver behind it) answers is not decided by package sx: it
  is a parameter, a function of the call and of the history so far. \<open>other_begin\<close> is
  the \<^verbatim>\<open>Begin\<close> method of any implementation of \<^verbatim>\<open>Beginner\<close> that is
  not one of this package, with whatever effect it has on the world. Every call into the
  library returns, with or without an error; only the action passed to
  \<^verbatim>\<open>Transaction\<close> and \<^verbatim>\<open>NewTransactor\<close> panic here.
\<close>

record sqllib =
  db_begin :: "dbid \<Rightarrow> world \<Rightarrow> string + txid"
  tx_commit :: "txid \<Rightarrow> world \<Rightarrow> error"
  tx_rollback :: "txid \<Rightarrow> world \<Rightarrow> error"
  db_stmt :: "dbid \<Rightarrow> stmt \<Rightarrow> world \<Rightarrow> error"
  tx_stmt :: "txid \<Rightarrow> stmt \<Rightarrow> world \<Rightarrow> error"
  other_begin :: "nat \<Rightarrow> world \<Rightarrow> (string + txid) \<times> world"

definition sql_DB_Begin :: "sqllib \<Rightarrow> dbid \<Rightarrow> world \<Rightarrow> (string + txid) \<times> world" where
  "sql_DB_Begin L d w = (db_begin L d w, w @ [DBBegin d])"

definition sql_Tx_Commit :: "sqllib \<Rightarrow> txid \<Rightarrow> world \<Rightarrow> error \<times> world" where
  "sql_Tx_Commit L t w = (tx_commit L t w, w @ [TxCommit t])"

definition sql_Tx_Rollback :: "sqllib \<Rightarrow> txid \<Rightarrow> world \<Rightarrow> error \<times> world" where
  "sql_Tx_Rollback L t w = (tx_rollback L t w, w @ [TxRollback t])"

definition sql_DB_Stmt :: "sqllib \<Rightarrow> dbid \<Rightarrow> stmt \<Rightarrow> world \<Rightarrow> error \<times> world" where
  "sql_DB_Stmt L d q w = (db_stmt L d q w, w @ [DBStmt d q])"

definition sql_Tx_Stmt :: "sqllib \<Rightarrow> txid \<Rightarrow> stmt \<Rightarrow> world \<Rightarrow> error \<times> world" where
  "sql_Tx_Stmt L t q w = (tx_stmt L t q w, w @ [TxStmt t q])"

section \<open>The wrapper types of sx.go\<close>

text \<open>
  \<^verbatim>\<open>type dbTransactor struct{ *sql.DB }\<close>,
  \<^verbatim>\<open>type nestableTransactor struct{ *sql.Tx }\<close> and
  \<^verbatim>\<open>type nestedTransactor struct{ *sql.Tx }\<close>: each holds one embedded pointer.
  The spec calls them Root, Nestable and Nested.
\<close>

datatype transactor =
    dbTransactor dbid
  | nestableTransactor txid
  | nestedTransactor txid

text \<open>
  The dynamic kinds of a value of interface type \<^verbatim>\<open>Beginner\<close> (the first argument of
  \<^verbatim>\<open>Transaction\<close>): \<^verbatim>\<open>*sql.DB\<close>, a wrapper of this package, or any other
  implementation. \<^verbatim>\<open>*sql.Tx\<close> has no \<^verbatim>\<open>Begin\<close> method and is no Beginner.
\<close>

datatype beginner =
    SqlDB dbid
  | Wrapper transactor
  | OtherBeginner nat

text \<open>
  The dynamic kinds of a value of interface type \<^verbatim>\<open>Executor\<close> (the argument of
  \<^verbatim>\<open>NewTransactor\<close>): \<^verbatim>\<open>*sql.DB\<close>, \<^verbatim>\<open>*sql.Tx\<close>, a wrapper of this
  package, any other implementation (given by the name of its type), or the nil interface.
\<close>

datatype executor =
    ExecDB dbid
  | ExecTx txid
  | ExecWrapper transactor
  | OtherExecutor string
  | NilExecutor

text \<open>
  \<^verbatim>\<open>Begin\<close>. \<^verbatim>\<open>dbTransactor\<close> declares none of its own: the method of the embedded
  \<^verbatim>\<open>*sql.DB\<close> is promoted. The other two wrappers return the transaction they hold.
\<close>

fun Begin :: "sqllib \<Rightarrow> beginner \<Rightarrow> world \<Rightarrow> (string + txid) \<times> world" where
  "Begin L (SqlDB d) w = sql_DB_Begin L d w"
| "Begin L (Wrapper (dbTransactor d)) w = sql_DB_Begin L d w"
| "Begin L (Wrapper (nestableTransactor t)) w = (Inr t, w)"
| "Begin L (Wrapper (nestedTransactor t)) w = (Inr t, w)"
| "Begin L (OtherBeginner n) w = other_begin L n w"

text \<open>
  \<^verbatim>\<open>Commit\<close>. \<^verbatim>\<open>nestableTransactor\<close> declares none: the method of the embedded
  \<^verbatim>\<open>*sql.Tx\<close> is promoted.
\<close>

fun Commit :: "sqllib \<Rightarrow> transactor \<Rightarrow> world \<Rightarrow> error \<times> world" where
  "Commit L (dbTransactor d) w = (None, w)"
| "Commit L (nestableTransactor t) w = sql_Tx_Commit L t w"
| "Commit L (nestedTransactor t) w = (None, w)"

text \<open>
  \<^verbatim>\<open>Rollback\<close>. Only \<^verbatim>\<open>dbTransactor\<close> declares one; the other two promote the
  method of the embedded \<^verbatim>\<open>*sql.Tx\<close>.
\<close>

fun Rollback :: "sqllib \<Rightarrow> transactor \<Rightarrow> world \<Rightarrow> error \<times> world" where
  "Rollback L (dbTransactor d) w = (None, w)"
| "Rollback L (nestableTransactor t) w = sql_Tx_Rollback L t w"
| "Rollback L (nestedTransactor t) w = sql_Tx_Rollback L t w"

text \<open>
  \<^verbatim>\<open>Exec\<close>, \<^verbatim>\<open>Query\<close> and \<^verbatim>\<open>QueryRow\<close> are promoted from the embedded
  pointer in all three wrappers.
\<close>

fun Run_stmt :: "sqllib \<Rightarrow> transactor \<Rightarrow> stmt \<Rightarrow> world \<Rightarrow> error \<times> world" where
  "Run_stmt L (dbTransactor d) q w = sql_DB_Stmt L d q w"
| "Run_stmt L (nestableTransactor t) q w = sql_Tx_Stmt L t q w"
| "Run_stmt L (nestedTransactor t) q w = sql_Tx_Stmt L t q w"

section \<open>Transaction\<close>

text \<open>
  A call of a Go function either returns or panics. The \<^verbatim>\<open>action\<close> passed to
  \<^verbatim>\<open>Transaction\<close> is any function from the transactor it is given and the world to
  an outcome and a new world.
\<close>

datatype outcome = Returned error | Panicked anyval

type_synonym action = "transactor \<Rightarrow> world \<Rightarrow> outcome \<times> world"

text \<open>
  Lines 39 to 45, the type switch on \<^verbatim>\<open>db\<close> that chooses the wrapper around
  \<^verbatim>\<open>impl\<close>.
\<close>

fun switch_tx :: "beginner \<Rightarrow> txid \<Rightarrow> transactor" where
  "switch_tx (Wrapper (nestableTransactor _)) impl = nestedTransactor impl"
| "switch_tx (Wrapper (nestedTransactor _)) impl = nestedTransactor impl"
| "switch_tx _ impl = nestableTransactor impl"

text \<open>
  Lines 56 to 61, the body after the \<^verbatim>\<open>defer\<close> statement. A panic of the action
  leaves the body at once.
\<close>

fun body :: "sqllib \<Rightarrow> transactor \<Rightarrow> outcome \<times> world \<Rightarrow> outcome \<times> world" where
  "body L tx (Panicked r, w) = (Panicked r, w)"
| "body L tx (Returned (Some err), w) = (Returned (Some err), snd (Rollback L tx w))"
| "body L tx (Returned None, w) = (Returned (fst (Commit L tx w)), snd (Commit L tx w))"

text \<open>
  Lines 49 to 54, the deferred function. It runs when the body is left. After a return
  \<^verbatim>\<open>recover()\<close> is nil and nothing happens. After a panic \<^verbatim>\<open>recover()\<close> stops
  the panic and yields its value \<open>r\<close>: when \<open>r\<close> is not nil the transaction is rolled back
  and \<open>r\<close> is raised again; when \<open>r\<close> is nil the guard is skipped, the panic stays
  recovered, and \<^verbatim>\<open>Transaction\<close> returns the zero value of its unnamed result, a nil
  error.
\<close>

fun deferred :: "sqllib \<Rightarrow> transactor \<Rightarrow> outcome \<times> world \<Rightarrow> outcome \<times> world" where
  "deferred L tx (Returned e, w) = (Returned e, w)"
| "deferred L tx (Panicked r, w) =
     (if r \<noteq> AnyNil then (Panicked r, snd (Rollback L tx w)) else (Returned None, w))"

definition Transaction :: "sqllib \<Rightarrow> beginner \<Rightarrow> action \<Rightarrow> world \<Rightarrow> outcome \<times> world" where
  "Transaction L db action w =
     (case Begin L db w of
        (Inl err, w1) \<Rightarrow> (Returned (Some err), w1)
      | (Inr impl, w1) \<Rightarrow>
          (let tx = switch_tx db impl
           in deferred L tx (body L tx (action tx w1))))"

section \<open>NewTransactor\<close>

text \<open>What \<^verbatim>\<open>%T\<close> prints for the dynamic type of the argument.\<close>

fun type_name :: "executor \<Rightarrow> string" where
  "type_name (ExecDB _) = ''*sql.DB''"
| "type_name (ExecTx _) = ''*sql.Tx''"
| "type_name (ExecWrapper (dbTransactor _)) = ''*sx.dbTransactor''"
| "type_name (ExecWrapper (nestableTransactor _)) = ''*sx.nestableTransactor''"
| "type_name (ExecWrapper (nestedTransactor _)) = ''*sx.nestedTransactor''"
| "type_name (OtherExecutor n) = n"
| "type_name NilExecutor = ''<nil>''"

text \<open>Lines 65 to 76. \<open>Inl\<close> is the panic of the default case, with its value.\<close>

fun NewTransactor :: "executor \<Rightarrow> anyval + transactor" where
  "NewTransactor (ExecDB d) = Inr (dbTransactor d)"
| "NewTransactor (ExecTx t) = Inr (nestableTransactor t)"
| "NewTransactor (ExecWrapper (nestedTransactor t)) = Inr (nestedTransactor t)"
| "NewTransactor v = Inl (AnyStr (''unsupported transactor type: '' @ type_name v))"

section \<open>Actions that work through the transactor they are given\<close>

text \<open>
  The claims about nesting speak of actions that reach the database only through the
  \<^verbatim>\<open>Transactor\<close> passed to them. Such an action is a script: it returns or
  panics, runs a statement, calls \<^verbatim>\<open>Commit\<close>, \<^verbatim>\<open>Rollback\<close> or
  \<^verbatim>\<open>Begin\<close> on its transactor, calls \<^verbatim>\<open>Transaction\<close> on its transactor with an
  inner script (\<open>Nest\<close>), or goes on with \<^verbatim>\<open>NewTransactor\<close> of its transactor
  (\<open>Renew\<close>). Where a call yields an error the script goes on depending on it. After an
  inner \<^verbatim>\<open>Transaction\<close> it goes on depending on the outcome: it may let a panic
  pass, or recover it in a deferred function of its own. The panic of
  \<^verbatim>\<open>NewTransactor\<close> leaves the script.

  A script calls methods of the wrapper only. \<^verbatim>\<open>Begin\<close> hands out the
  \<^verbatim>\<open>*sql.Tx\<close> itself (lines 89 and 95); a script calls it (\<open>CallBegin\<close>) but makes
  no call on the \<^verbatim>\<open>*sql.Tx\<close> it gets. Actions that do are functions of their own
  below (\<open>commit_raw\<close>, \<open>commit_rewrapped\<close>).
\<close>

datatype script =
    Return error
  | Panic anyval
  | Stmt stmt "error \<Rightarrow> script"
  | CallCommit "error \<Rightarrow> script"
  | CallRollback "error \<Rightarrow> script"
  | CallBegin script
  | Nest script "outcome \<Rightarrow> script"
  | Renew script

primrec run :: "sqllib \<Rightarrow> script \<Rightarrow> transactor \<Rightarrow> world \<Rightarrow> outcome \<times> world" where
  "run L (Return e) tx w = (Returned e, w)"
| "run L (Panic v) tx w = (Panicked v, w)"
| "run L (Stmt q k) tx w =
     run L (k (fst (Run_stmt L tx q w))) tx (snd (Run_stmt L tx q w))"
| "run L (CallCommit k) tx w =
     run L (k (fst (Commit L tx w))) tx (snd (Commit L tx w))"
| "run L (CallRollback k) tx w =
     run L (k (fst (Rollback L tx w))) tx (snd (Rollback L tx w))"
| "run L (CallBegin s) tx w = run L s tx (snd (Begin L (Wrapper tx) w))"
| "run L (Nest inner k) tx w =
     (case Transaction L (Wrapper tx) (run L inner) w of
        (out, w') \<Rightarrow> run L (k out) tx w')"
| "run L (Renew s) tx w =
     (case NewTransactor (ExecWrapper tx) of
        Inl r \<Rightarrow> (Panicked r, w)
      | Inr tx' \<Rightarrow> run L s tx' w)"

text \<open>
  An action that ends with \<^verbatim>\<open>return sx.Transaction(tx, inner)\<close> returns what the
  inner call returns and lets its panic pass.
\<close>

fun pass :: "outcome \<Rightarrow> script" where
  "pass (Returned e) = Return e"
| "pass (Panicked r) = Panic r"




section \<open>Reading the history\<close>

fun is_begin :: "event \<Rightarrow> bool" where
  "is_begin (DBBegin _) = True"
| "is_begin _ = False"

fun is_commit :: "event \<Rightarrow> bool" where
  "is_commit (TxCommit _) = True"
| "is_commit _ = False"

text \<open>The physical \<^verbatim>\<open>Begin\<close> and \<^verbatim>\<open>Commit\<close> calls of a history.\<close>

definition begins :: "world \<Rightarrow> nat" where
  "begins w = length (filter is_begin w)"


text \<open>An event that is a call on the transaction \<open>t\<close>.\<close>

fun on_tx :: "txid \<Rightarrow> event \<Rightarrow> bool" where
  "on_tx t (TxCommit u) = (u = t)"
| "on_tx t (TxRollback u) = (u = t)"
| "on_tx t (TxStmt u q) = (u = t)"
| "on_tx t (DBBegin d) = False"
| "on_tx t (DBStmt d q) = False"

text \<open>
  What a scope holding the transactor may add to the history: a scope with the
  \<^verbatim>\<open>nestableTransactor\<close> over \<open>t\<close> any call on \<open>t\<close>, a scope with the
  \<^verbatim>\<open>nestedTransactor\<close> over \<open>t\<close> any call on \<open>t\<close> but a commit.
\<close>

fun scope_event :: "transactor \<Rightarrow> event \<Rightarrow> bool" where
  "scope_event (nestableTransactor t) e = on_tx t e"
| "scope_event (nestedTransactor t) e = (on_tx t e \<and> \<not> is_commit e)"
| "scope_event (dbTransactor d) e = True"

text \<open>\<open>w'\<close> continues \<open>w\<close> with events that all satisfy \<open>P\<close>.\<close>

definition extends :: "(event \<Rightarrow> bool) \<Rightarrow> world \<Rightarrow> world \<Rightarrow> bool" where
  "extends P w w' = (take (length w) w' = w \<and> list_all P (drop (length w) w'))"

text \<open>
  database/sql marks a \<^verbatim>\<open>*sql.Tx\<close> done at the first \<^verbatim>\<open>Commit\<close> or
  \<^verbatim>\<open>Rollback\<close> call that reaches it, whatever the driver answers; until then it is
  open.
\<close>

definition finalized :: "world \<Rightarrow> txid \<Rightarrow> bool" where
  "finalized w t = (TxCommit t \<in> set w \<or> TxRollback t \<in> set w)"

section \<open>Example environments\<close>

text \<open>A database where every call succeeds; a new transaction is numbered by the length
  of the history.\<close>

definition calm_lib :: sqllib where
  "calm_lib = \<lparr>db_begin = (\<lambda>d w. Inr (length w)),
               tx_commit = (\<lambda>t w. None),
               tx_rollback = (\<lambda>t w. None),
               db_stmt = (\<lambda>d q w. None),
               tx_stmt = (\<lambda>t q w. None),
               other_begin = (\<lambda>n w. (Inr n, w))\<rparr>"

text \<open>A database that opens transaction 7 and then fails every commit and rollback.\<close>

definition flaky_lib :: sqllib where
  "flaky_lib = \<lparr>db_begin = (\<lambda>d w. Inr 7),
                tx_commit = (\<lambda>t w. Some ''commit failed''),
                tx_rollback = (\<lambda>t w. Some ''rollback failed''),
                db_stmt = (\<lambda>d q w. None),
                tx_stmt = (\<lambda>t q w. None),
                other_begin = (\<lambda>n w. (Inr 7, w))\<rparr>"


text \<open>A database that cannot begin.\<close>

definition down_lib :: sqllib where
  "down_lib = \<lparr>db_begin = (\<lambda>d w. Inl ''bad connection''),
               tx_commit = (\<lambda>t w. None),
               tx_rollback = (\<lambda>t w. None),
               db_stmt = (\<lambda>d q w. None),
               tx_stmt = (\<lambda>t q w. None),
               other_begin = (\<lambda>n w. (Inl ''not available'', w))\<rparr>"

text \<open>
  Two levels of nesting: the outer action runs a statement, then an inner
  \<^verbatim>\<open>Transaction\<close> whose action runs a statement and a third
  \<^verbatim>\<open>Transaction\<close>, and returns what the inner call returned.
\<close>

definition nested_script :: script where
  "nested_script =
     Stmt (Exec ''INSERT 1'') (\<lambda>_.
       Nest (Stmt (Exec ''INSERT 2'') (\<lambda>_. Nest (Return None) pass)) pass)"

section \<open>Histories that grow\<close>

lemma extends_iff: "extends P w w' \<longleftrightarrow> (\<exists>evs. w' = w @ evs \<and> list_all P evs)"
proof
  assume "extends P w w'"
  then have "w' = w @ drop (length w) w'" "list_all P (drop (length w) w')"
    unfolding extends_def by (metis append_take_drop_id, simp)
  then show "\<exists>evs. w' = w @ evs \<and> list_all P evs" by blast
next
  assume "\<exists>evs. w' = w @ evs \<and> list_all P evs"
  then show "extends P w w'" unfolding extends_def by auto
qed

lemma extends_refl: "extends P w w"
  by (simp add: extends_iff)

lemma extends_snoc: "extends P w w' \<Longrightarrow> P e \<Longrightarrow> extends P w (w' @ [e])"
  by (auto simp: extends_iff)

lemma extends_one: "P e \<Longrightarrow> extends P w (w @ [e])"
  by (simp add: extends_iff)

lemma extends_trans: "extends P w w' \<Longrightarrow> extends P w' w'' \<Longrightarrow> extends P w w''"
  by (auto simp: extends_iff)

lemma extends_mono: "extends P w w' \<Longrightarrow> (\<And>e. P e \<Longrightarrow> Q e) \<Longrightarrow> extends Q w w'"
  by (auto simp: extends_iff list_all_iff)

lemma extends_begins:
  "extends P w w' \<Longrightarrow> (\<And>e. P e \<Longrightarrow> \<not> is_begin e) \<Longrightarrow> begins w' = begins w"
  by (auto simp: extends_iff begins_def list_all_iff filter_empty_conv)


lemma on_tx_not_begin: "on_tx t e \<Longrightarrow> \<not> is_begin e"
  by (cases e) auto

lemma nested_scope_weaker:
  "tx = nestableTransactor t \<or> tx = nestedTransactor t \<Longrightarrow>
   scope_event (nestedTransactor t) e \<Longrightarrow> scope_event tx e"
  by auto

lemma finish_nested:
  assumes "extends (scope_event (nestedTransactor t)) w (snd r)"
  shows "extends (scope_event (nestedTransactor t)) w
           (snd (deferred L (nestedTransactor t) (body L (nestedTransactor t) r)))"
proof (cases r)
  case (Pair out w2)
  with assms have e: "extends (scope_event (nestedTransactor t)) w w2" by simp
  show ?thesis
  proof (cases out)
    case (Returned err)
    with Pair e show ?thesis
      by (cases err) (auto simp: sql_Tx_Rollback_def intro: extends_snoc)
  next
    case (Panicked v)
    with Pair e show ?thesis
      by (auto simp: sql_Tx_Rollback_def intro: extends_snoc)
  qed
qed

lemma Transaction_in_scope:
  assumes "tx = nestableTransactor t \<or> tx = nestedTransactor t"
    and "extends (scope_event (nestedTransactor t)) w (snd (a (nestedTransactor t) w))"
  shows "extends (scope_event (nestedTransactor t)) w (snd (Transaction L (Wrapper tx) a w))"
  using assms finish_nested [of t w "a (nestedTransactor t) w" L]
  by (auto simp: Transaction_def Let_def)

lemma run_in_scope:
  "tx = nestableTransactor t \<or> tx = nestedTransactor t \<Longrightarrow>
   extends (scope_event tx) w (snd (run L sc tx w))"
proof (induction sc arbitrary: tx w)
  case (Return e)
  show ?case by (simp add: extends_refl)
next
  case (Panic v)
  show ?case by (simp add: extends_refl)
next
  case (Stmt q k)
  have "extends (scope_event tx) w (snd (Run_stmt L tx q w))"
    using Stmt.prems by (auto simp: sql_Tx_Stmt_def extends_one)
  moreover have "extends (scope_event tx) (snd (Run_stmt L tx q w))
      (snd (run L (k (fst (Run_stmt L tx q w))) tx (snd (Run_stmt L tx q w))))"
    using Stmt.IH Stmt.prems by (simp add: rangeI)
  ultimately show ?case by (simp add: extends_trans)
next
  case (CallCommit k)
  have "extends (scope_event tx) w (snd (Commit L tx w))"
    using CallCommit.prems by (auto simp: sql_Tx_Commit_def extends_one extends_refl)
  moreover have "extends (scope_event tx) (snd (Commit L tx w))
      (snd (run L (k (fst (Commit L tx w))) tx (snd (Commit L tx w))))"
    using CallCommit.IH CallCommit.prems by (simp add: rangeI)
  ultimately show ?case by (simp add: extends_trans)
next
  case (CallRollback k)
  have "extends (scope_event tx) w (snd (Rollback L tx w))"
    using CallRollback.prems by (auto simp: sql_Tx_Rollback_def extends_one)
  moreover have "extends (scope_event tx) (snd (Rollback L tx w))
      (snd (run L (k (fst (Rollback L tx w))) tx (snd (Rollback L tx w))))"
    using CallRollback.IH CallRollback.prems by (simp add: rangeI)
  ultimately show ?case by (simp add: extends_trans)
next
  case (CallBegin s)
  have "snd (Begin L (Wrapper tx) w) = w" using CallBegin.prems by auto
  then show ?case using CallBegin.IH CallBegin.prems by simp
next
  case (Nest inner k)
  let ?r = "Transaction L (Wrapper tx) (run L inner) w"
  have "extends (scope_event (nestedTransactor t)) w (snd (run L inner (nestedTransactor t) w))"
    using Nest.IH(1) by simp
  then have "extends (scope_event (nestedTransactor t)) w (snd ?r)"
    using Nest.prems by (rule Transaction_in_scope [rotated])
  then have first: "extends (scope_event tx) w (snd ?r)"
    using nested_scope_weaker [OF Nest.prems] by (rule extends_mono)
  have "extends (scope_event tx) (snd ?r) (snd (run L (k (fst ?r)) tx (snd ?r)))"
    using Nest.IH(2) Nest.prems by (simp add: rangeI)
  with first show ?case by (simp add: extends_trans split_beta)
next
  case (Renew s)
  from Renew.prems show ?case
  proof
    assume "tx = nestableTransactor t"
    then show ?thesis by (simp add: extends_refl)
  next
    assume "tx = nestedTransactor t"
    then show ?thesis using Renew.IH [of "nestedTransactor t" w] by simp
  qed
qed

section \<open>The claims\<close>

lemma switch_tx_cases:
  "switch_tx db impl = nestableTransactor impl \<or> switch_tx db impl = nestedTransactor impl"
  by (cases "(db, impl)" rule: switch_tx.cases) auto

lemma Rollback_switch_tx:
  "Rollback L (switch_tx db impl) w = (tx_rollback L impl w, w @ [TxRollback impl])"
  using switch_tx_cases [of db impl] by (auto simp: sql_Tx_Rollback_def)

lemma switch_tx_pool:
  "db = SqlDB d \<or> db = Wrapper (dbTransactor d) \<Longrightarrow> switch_tx db impl = nestableTransactor impl"
  by auto

lemma Begin_pool:
  "db = SqlDB d \<or> db = Wrapper (dbTransactor d) \<Longrightarrow>
   Begin L db w = (db_begin L d w, w @ [DBBegin d])"
  by (auto simp: sql_DB_Begin_def)

lemma Transaction_panic_rollback:
  assumes "Begin L db w = (Inr impl, w1)"
    and "action (switch_tx db impl) w1 = (Panicked r, w2)"
    and "r \<noteq> AnyNil"
  shows "Transaction L db action w = (Panicked r, w2 @ [TxRollback impl])"
  using assms by (simp add: Transaction_def Let_def Rollback_switch_tx)



text \<open>
  Claim C2 (transaction reuse under nesting). \<^verbatim>\<open>Begin\<close> on a
  \<^verbatim>\<open>nestableTransactor\<close> and on a \<^verbatim>\<open>nestedTransactor\<close> returns the transaction
  the wrapper holds, with a nil error, and adds nothing to the history. For every script
  \<open>sc\<close>, whatever its nesting, a \<^verbatim>\<open>Transaction\<close> on a pool-level handle
  (\<^verbatim>\<open>*sql.DB\<close> or a \<^verbatim>\<open>dbTransactor\<close>) adds exactly one physical
  \<^verbatim>\<open>Begin\<close> to the history, and a \<^verbatim>\<open>Transaction\<close> on a Nestable or Nested
  wrapper adds none.
\<close>

theorem begin_reuse:
  "Begin L (Wrapper (nestableTransactor t)) w = (Inr t, w)
   \<and> Begin L (Wrapper (nestedTransactor t)) w = (Inr t, w)
   \<and> begins (snd (Transaction L (SqlDB d) (run L sc) w)) = begins w + 1
   \<and> begins (snd (Transaction L (Wrapper (dbTransactor d)) (run L sc) w)) = begins w + 1
   \<and> begins (snd (Transaction L (Wrapper (nestableTransactor t)) (run L sc) w)) = begins w
   \<and> begins (snd (Transaction L (Wrapper (nestedTransactor t)) (run L sc) w)) = begins w"
proof -
  have pool: "begins (snd (Transaction L db (run L sc) w)) = begins w + 1"
    if db: "db = SqlDB d \<or> db = Wrapper (dbTransactor d)" for db
  proof (cases "db_begin L d w")
    case (Inl err)
    then show ?thesis using db by (auto simp: Transaction_def sql_DB_Begin_def begins_def)
  next
    case (Inr impl)
    let ?tx = "nestableTransactor impl"
    let ?w1 = "w @ [DBBegin d]"
    have run: "extends (scope_event ?tx) ?w1 (snd (run L sc ?tx ?w1))"
      by (rule run_in_scope) simp
    have fin: "extends (scope_event ?tx) ?w1 (snd (deferred L ?tx (body L ?tx r)))"
      if "extends (scope_event ?tx) ?w1 (snd r)" for r
    proof (cases r)
      case (Pair out w2)
      with that have e: "extends (scope_event ?tx) ?w1 w2" by simp
      show ?thesis
      proof (cases out)
        case (Returned err)
        with Pair e show ?thesis
          by (cases err) (auto simp: sql_Tx_Rollback_def sql_Tx_Commit_def intro: extends_snoc)
      next
        case (Panicked v)
        with Pair e show ?thesis by (auto simp: sql_Tx_Rollback_def intro: extends_snoc)
      qed
    qed
    have "Transaction L db (run L sc) w = deferred L ?tx (body L ?tx (run L sc ?tx ?w1))"
      using db Inr by (auto simp: Transaction_def Let_def sql_DB_Begin_def)
    then have "extends (scope_event ?tx) ?w1 (snd (Transaction L db (run L sc) w))"
      using fin [OF run] by simp
    then have "begins (snd (Transaction L db (run L sc) w)) = begins ?w1"
      by (rule extends_begins) (simp add: on_tx_not_begin)
    then show ?thesis by (simp add: begins_def)
  qed
  have inner: "begins (snd (Transaction L (Wrapper tx) (run L sc) w)) = begins w"
    if tx: "tx = nestableTransactor t \<or> tx = nestedTransactor t" for tx
  proof -
    have "extends (scope_event (nestedTransactor t)) w (snd (run L sc (nestedTransactor t) w))"
      by (rule run_in_scope) simp
    then have "extends (scope_event (nestedTransactor t)) w (snd (Transaction L (Wrapper tx) (run L sc) w))"
      using tx by (rule Transaction_in_scope [rotated])
    then show ?thesis by (rule extends_begins) (auto dest: on_tx_not_begin)
  qed
  show ?thesis using pool [of "SqlDB d"] pool [of "Wrapper (dbTransactor d)"]
      inner [of "nestableTransactor t"] inner [of "nestedTransactor t"] by simp
qed

text \<open>
  Claim C3 (classification in the orchestrator). When \<^verbatim>\<open>Begin\<close> on the handle
  succeeds with \<open>impl\<close>, \<^verbatim>\<open>Transaction\<close> runs the action, the body and the deferred
  function with one wrapper around \<open>impl\<close>: a \<^verbatim>\<open>nestedTransactor\<close> exactly when the
  handle is a \<^verbatim>\<open>nestableTransactor\<close> or a \<^verbatim>\<open>nestedTransactor\<close>, and a
  \<^verbatim>\<open>nestableTransactor\<close> for every other handle.
\<close>

theorem Transaction_wrapper_choice:
  assumes "Begin L db w = (Inr impl, w1)"
  shows "Transaction L db action w =
           (let tx = (if \<exists>t. db = Wrapper (nestableTransactor t) \<or> db = Wrapper (nestedTransactor t)
                      then nestedTransactor impl else nestableTransactor impl)
            in deferred L tx (body L tx (action tx w1)))"
proof -
  have "switch_tx db impl =
          (if \<exists>t. db = Wrapper (nestableTransactor t) \<or> db = Wrapper (nestedTransactor t)
           then nestedTransactor impl else nestableTransactor impl)"
    by (cases "(db, impl)" rule: switch_tx.cases) auto
  then show ?thesis using assms by (simp add: Transaction_def Let_def)
qed

text \<open>
  The handle is a Nested wrapper; the action panics with a value that tells which kind of
  wrapper it was given.
\<close>

theorem Transaction_wrapper_choice_witness:
  "Begin calm_lib (Wrapper (nestedTransactor 4)) [] = (Inr 4, [])
   \<and> Transaction calm_lib (Wrapper (nestedTransactor 4))
        (\<lambda>tx w. (Panicked (AnyObj (case tx of nestedTransactor _ \<Rightarrow> 1 | _ \<Rightarrow> 0)), w)) []
       = (Panicked (AnyObj 1), [TxRollback 4])"
proof -
  have h: "Begin calm_lib (Wrapper (nestedTransactor 4)) [] = (Inr 4, [])" by simp
  show ?thesis
    using h Transaction_wrapper_choice [OF h,
        of "\<lambda>tx w. (Panicked (AnyObj (case tx of nestedTransactor _ \<Rightarrow> 1 | _ \<Rightarrow> 0)), w)"]
    by (simp add: sql_Tx_Rollback_def)
qed

text \<open>
  Claim C4 (panic safety). The claim: whenever the action panics, the wrapper is rolled back
  and the same panic value reaches the caller. \<open>Transaction_panic_rollback\<close> above shows
  this for every panic value that is not nil. At \<^verbatim>\<open>panic(nil)\<close>, where
  \<^verbatim>\<open>recover()\<close> yields nil, the code does otherwise: on a pool handle, after one
  statement of the action, nothing is rolled back, the panic is gone and
  \<^verbatim>\<open>Transaction\<close> returns a nil error.
\<close>

theorem Transaction_nil_panic_swallowed:
  "Transaction calm_lib (SqlDB 0)
     (run calm_lib (Stmt (Exec ''INSERT 1'') (\<lambda>_. Panic AnyNil))) []
   = (Returned None, [DBBegin 0, TxStmt 0 (Exec ''INSERT 1'')])"
  by (simp add: Transaction_def calm_lib_def sql_DB_Begin_def sql_Tx_Stmt_def)

text \<open>
  Claim C5 (action-error path). When \<^verbatim>\<open>Begin\<close> on the handle succeeds with
  \<open>impl\<close> and the action, run with the constructed wrapper, returns the non-nil error
  \<open>err\<close> leaving the history \<open>w2\<close>, then \<^verbatim>\<open>Transaction\<close> returns \<open>err\<close> itself,
  whatever the rollback answers, and the history is \<open>w2\<close> followed by exactly one rollback
  of \<open>impl\<close>, the one \<^verbatim>\<open>Rollback\<close> call on the wrapper, and by no commit.
\<close>

theorem Transaction_action_error:
  assumes "Begin L db w = (Inr impl, w1)"
    and "action (switch_tx db impl) w1 = (Returned (Some err), w2)"
  shows "Transaction L db action w = (Returned (Some err), w2 @ [TxRollback impl])
         \<and> snd (Rollback L (switch_tx db impl) w2) = w2 @ [TxRollback impl]"
  using assms by (simp add: Transaction_def Let_def Rollback_switch_tx)

text \<open>
  A pool handle whose transaction 7 fails to roll back: the error of the action is
  returned, not \<open>''rollback failed''\<close>.
\<close>

theorem Transaction_action_error_witness:
  "Begin flaky_lib (SqlDB 0) [] = (Inr 7, [DBBegin 0])
   \<and> run flaky_lib (Stmt (Exec ''INSERT 1'') (\<lambda>_. Return (Some ''no stock'')))
        (switch_tx (SqlDB 0) 7) [DBBegin 0]
       = (Returned (Some ''no stock''), [DBBegin 0, TxStmt 7 (Exec ''INSERT 1'')])
   \<and> Transaction flaky_lib (SqlDB 0)
        (run flaky_lib (Stmt (Exec ''INSERT 1'') (\<lambda>_. Return (Some ''no stock'')))) []
       = (Returned (Some ''no stock''), [DBBegin 0, TxStmt 7 (Exec ''INSERT 1''), TxRollback 7])
   \<and> fst (Rollback flaky_lib (switch_tx (SqlDB 0) 7) [DBBegin 0, TxStmt 7 (Exec ''INSERT 1'')])
       = Some ''rollback failed''"
proof -
  have h1: "Begin flaky_lib (SqlDB 0) [] = (Inr 7, [DBBegin 0])"
    by (simp add: flaky_lib_def sql_DB_Begin_def)
  have h2: "run flaky_lib (Stmt (Exec ''INSERT 1'') (\<lambda>_. Return (Some ''no stock'')))
        (switch_tx (SqlDB 0) 7) [DBBegin 0]
       = (Returned (Some ''no stock''), [DBBegin 0, TxStmt 7 (Exec ''INSERT 1'')])"
    by (simp add: sql_Tx_Stmt_def)
  have h3: "fst (Rollback flaky_lib (switch_tx (SqlDB 0) 7) [DBBegin 0, TxStmt 7 (Exec ''INSERT 1'')])
       = Some ''rollback failed''"
    by (simp add: flaky_lib_def sql_Tx_Rollback_def)
  show ?thesis using h1 h2 h3 Transaction_action_error
      [where action = "run flaky_lib (Stmt (Exec ''INSERT 1'') (\<lambda>_. Return (Some ''no stock'')))",
        OF h1 h2]
    by simp
qed

text \<open>
  Claim C6 (success path on a pool-level handle). The handle is a \<^verbatim>\<open>*sql.DB\<close> or a
  \<^verbatim>\<open>dbTransactor\<close>, \<^verbatim>\<open>Begin\<close> succeeds with \<open>impl\<close> (one physical begin) and
  the action returns, leaving the history \<open>w2\<close>. If it returns nil,
  \<^verbatim>\<open>Transaction\<close> adds to \<open>w2\<close> exactly one commit of \<open>impl\<close> and no rollback, and
  returns what that commit returned. If it returns an error, \<^verbatim>\<open>Transaction\<close> adds
  exactly one rollback of \<open>impl\<close> and no commit, and returns the error. Either way
  \<open>impl\<close> is not left open.
\<close>

theorem Transaction_pool_handle:
  assumes "db = SqlDB d \<or> db = Wrapper (dbTransactor d)"
    and "Begin L db w = (Inr impl, w1)"
    and "action (nestableTransactor impl) w1 = (Returned res, w2)"
  shows "w1 = w @ [DBBegin d]
         \<and> Transaction L db action w =
             (case res of
                None \<Rightarrow> (Returned (tx_commit L impl w2), w2 @ [TxCommit impl])
              | Some err \<Rightarrow> (Returned (Some err), w2 @ [TxRollback impl]))
         \<and> finalized (snd (Transaction L db action w)) impl"
proof -
  have tx: "switch_tx db impl = nestableTransactor impl"
    using assms(1) by (rule switch_tx_pool)
  have w1: "w1 = w @ [DBBegin d]"
    using assms(2) Begin_pool [OF assms(1), of L w] by simp
  have run: "Transaction L db action w =
             (case res of
                None \<Rightarrow> (Returned (tx_commit L impl w2), w2 @ [TxCommit impl])
              | Some err \<Rightarrow> (Returned (Some err), w2 @ [TxRollback impl]))"
    using assms(2,3) tx
    by (cases res) (simp_all add: Transaction_def Let_def sql_Tx_Commit_def sql_Tx_Rollback_def)
  have "finalized (snd (Transaction L db action w)) impl"
    unfolding run by (cases res) (simp_all add: finalized_def)
  with w1 run show ?thesis by simp
qed

text \<open>A Root wrapper as handle and two levels of nested calls in the action.\<close>

theorem Transaction_pool_handle_witness:
  "(Wrapper (dbTransactor 2) = SqlDB 2 \<or> Wrapper (dbTransactor 2) = Wrapper (dbTransactor 2))
   \<and> Begin calm_lib (Wrapper (dbTransactor 2)) [] = (Inr 0, [DBBegin 2])
   \<and> run calm_lib nested_script (nestableTransactor 0) [DBBegin 2]
       = (Returned None,
          [DBBegin 2, TxStmt 0 (Exec ''INSERT 1''), TxStmt 0 (Exec ''INSERT 2'')])
   \<and> Transaction calm_lib (Wrapper (dbTransactor 2)) (run calm_lib nested_script) []
       = (Returned None,
          [DBBegin 2, TxStmt 0 (Exec ''INSERT 1''), TxStmt 0 (Exec ''INSERT 2''), TxCommit 0])
   \<and> finalized (snd (Transaction calm_lib (Wrapper (dbTransactor 2))
                        (run calm_lib nested_script) [])) 0"
proof -
  have h1: "Wrapper (dbTransactor 2) = SqlDB 2 \<or> Wrapper (dbTransactor 2) = Wrapper (dbTransactor 2)"
    by simp
  have h2: "Begin calm_lib (Wrapper (dbTransactor 2)) [] = (Inr 0, [DBBegin 2])"
    by (simp add: calm_lib_def sql_DB_Begin_def)
  have h3: "run calm_lib nested_script (nestableTransactor 0) [DBBegin 2]
       = (Returned None,
          [DBBegin 2, TxStmt 0 (Exec ''INSERT 1''), TxStmt 0 (Exec ''INSERT 2'')])"
    by (simp add: nested_script_def Transaction_def sql_Tx_Stmt_def)
  have c: "tx_commit calm_lib 0 w = None" for w by (simp add: calm_lib_def)
  show ?thesis using h1 h2 h3 Transaction_pool_handle [where action = "run calm_lib nested_script", OF h1 h2 h3]
    by (simp add: c finalized_def)
qed

text \<open>
  Claim C7 (begin failure). For every handle, if \<^verbatim>\<open>Begin\<close> returns the error
  \<open>err\<close> leaving the history \<open>w1\<close>, then \<^verbatim>\<open>Transaction\<close> returns \<open>err\<close> and the
  history stays \<open>w1\<close>, whatever the action is: the action is not run, and nothing is
  committed or rolled back.
\<close>

theorem Transaction_begin_failure:
  assumes "Begin L db w = (Inl err, w1)"
  shows "Transaction L db action w = (Returned (Some err), w1)"
  using assms by (simp add: Transaction_def)

text \<open>The action would commit and panic if it were run.\<close>

theorem Transaction_begin_failure_witness:
  "Begin down_lib (SqlDB 0) [] = (Inl ''bad connection'', [DBBegin 0])
   \<and> Transaction down_lib (SqlDB 0) (run down_lib (CallCommit (\<lambda>_. Panic (AnyStr ''boom'')))) []
       = (Returned (Some ''bad connection''), [DBBegin 0])"
proof -
  have h: "Begin down_lib (SqlDB 0) [] = (Inl ''bad connection'', [DBBegin 0])"
    by (simp add: down_lib_def sql_DB_Begin_def)
  show ?thesis
    using h Transaction_begin_failure [OF h,
        of "run down_lib (CallCommit (\<lambda>_. Panic (AnyStr ''boom'')))"]
    by simp
qed

text \<open>
  Claim C8 (factory classification), as stated: every handle whose dynamic kind is neither
  \<^verbatim>\<open>*sql.DB\<close> nor \<^verbatim>\<open>*sql.Tx\<close> makes \<^verbatim>\<open>NewTransactor\<close> panic. A
  \<^verbatim>\<open>nestedTransactor\<close> is of neither kind, and \<^verbatim>\<open>NewTransactor\<close> returns.
\<close>

theorem NewTransactor_nested_counterexample:
  "type_name (ExecWrapper (nestedTransactor 1)) \<noteq> ''*sql.DB''
   \<and> type_name (ExecWrapper (nestedTransactor 1)) \<noteq> ''*sql.Tx''
   \<and> NewTransactor (ExecWrapper (nestedTransactor 1)) = Inr (nestedTransactor 1)"
  by simp

text \<open>
  Claim C8, amended: \<^verbatim>\<open>NewTransactor\<close> returns a \<^verbatim>\<open>dbTransactor\<close> for a
  \<^verbatim>\<open>*sql.DB\<close> and a \<^verbatim>\<open>nestableTransactor\<close> for a \<^verbatim>\<open>*sql.Tx\<close>; it panics for
  a \<^verbatim>\<open>nestableTransactor\<close>, for a \<^verbatim>\<open>dbTransactor\<close>, and for every handle that is
  none of \<^verbatim>\<open>*sql.DB\<close>, \<^verbatim>\<open>*sql.Tx\<close> and \<^verbatim>\<open>nestedTransactor\<close>. The result
  type has no error value: the failure is the panic, with the message of line 74.
\<close>

theorem NewTransactor_classification:
  "NewTransactor (ExecDB d) = Inr (dbTransactor d)
   \<and> NewTransactor (ExecTx t) = Inr (nestableTransactor t)
   \<and> NewTransactor (ExecWrapper (nestableTransactor t))
       = Inl (AnyStr ''unsupported transactor type: *sx.nestableTransactor'')
   \<and> NewTransactor (ExecWrapper (dbTransactor d))
       = Inl (AnyStr ''unsupported transactor type: *sx.dbTransactor'')
   \<and> ((\<forall>d'. v \<noteq> ExecDB d') \<and> (\<forall>t'. v \<noteq> ExecTx t')
        \<and> (\<forall>t'. v \<noteq> ExecWrapper (nestedTransactor t'))
       \<longrightarrow> NewTransactor v = Inl (AnyStr (''unsupported transactor type: '' @ type_name v)))"
  by (cases v rule: NewTransactor.cases) auto

text \<open>A type of the caller's own that implements \<^verbatim>\<open>Executor\<close>.\<close>

theorem NewTransactor_classification_witness:
  "(\<forall>d'. OtherExecutor ''*main.conn'' \<noteq> ExecDB d')
   \<and> (\<forall>t'. OtherExecutor ''*main.conn'' \<noteq> ExecTx t')
   \<and> (\<forall>t'. OtherExecutor ''*main.conn'' \<noteq> ExecWrapper (nestedTransactor t'))
   \<and> NewTransactor (OtherExecutor ''*main.conn'')
       = Inl (AnyStr ''unsupported transactor type: *main.conn'')"
  using NewTransactor_classification [of 0 0 "OtherExecutor ''*main.conn''"] by simp

text \<open>
  Claim C9 (the factory on Nested wrappers). \<^verbatim>\<open>NewTransactor\<close> of a
  \<^verbatim>\<open>nestedTransactor\<close> returns a \<^verbatim>\<open>nestedTransactor\<close> holding the same
  transaction.
\<close>

theorem NewTransactor_nested:
  "NewTransactor (ExecWrapper (nestedTransactor t)) = Inr (nestedTransactor t)"
  by simp

text \<open>
  Claim C10 (nil panic). When \<^verbatim>\<open>Begin\<close> on the handle succeeds with \<open>impl\<close> and the
  action panics with a value for which \<^verbatim>\<open>recover()\<close> yields nil, leaving the history
  \<open>w2\<close>, then \<^verbatim>\<open>Transaction\<close> returns a nil error instead of panicking, and the
  history stays \<open>w2\<close>: no rollback and no commit, so \<open>impl\<close> is as open as the action left
  it.
\<close>

theorem Transaction_nil_panic:
  assumes "Begin L db w = (Inr impl, w1)"
    and "action (switch_tx db impl) w1 = (Panicked AnyNil, w2)"
  shows "Transaction L db action w = (Returned None, w2)
         \<and> finalized (snd (Transaction L db action w)) impl = finalized w2 impl"
  using assms by (simp add: Transaction_def Let_def)

text \<open>An inner scope whose action is \<^verbatim>\<open>panic(nil)\<close>; transaction 7 stays open.\<close>

theorem Transaction_nil_panic_witness:
  "Begin flaky_lib (Wrapper (nestableTransactor 7)) [DBBegin 0] = (Inr 7, [DBBegin 0])
   \<and> run flaky_lib (Panic AnyNil) (switch_tx (Wrapper (nestableTransactor 7)) 7) [DBBegin 0]
       = (Panicked AnyNil, [DBBegin 0])
   \<and> Transaction flaky_lib (Wrapper (nestableTransactor 7)) (run flaky_lib (Panic AnyNil)) [DBBegin 0]
       = (Returned None, [DBBegin 0])
   \<and> \<not> finalized [DBBegin 0] 7"
proof -
  have h1: "Begin flaky_lib (Wrapper (nestableTransactor 7)) [DBBegin 0] = (Inr 7, [DBBegin 0])"
    by simp
  have h2: "run flaky_lib (Panic AnyNil) (switch_tx (Wrapper (nestableTransactor 7)) 7) [DBBegin 0]
       = (Panicked AnyNil, [DBBegin 0])"
    by simp
  show ?thesis using h1 h2 Transaction_nil_panic [where action = "run flaky_lib (Panic AnyNil)", OF h1 h2]
    by (simp add: finalized_def)
qed

end
